theory Spec2Isabelle
  imports Complex_Main
begin

section \<open>The session habit ledger of app.py\<close>

text \<open>
  The program is a Streamlit script. Its ledger is the Python list
  \<^verbatim>\<open>st.session_state.history\<close>; every element is a dict with the keys
  \<^verbatim>\<open>"date"\<close> (an ISO date string), \<^verbatim>\<open>"mood"\<close> (an int) and the five habit
  keys of \<^verbatim>\<open>HABITS\<close> (bools). The script reads every key with \<^verbatim>\<open>.get\<close>, so a
  key may be absent: each field of the record below is optional, and \<open>None\<close>
  stands for "key not in the dict". The values have the types the program
  stores.
\<close>

subsection \<open>Data\<close>

record entry =
  date :: "string option"
  mood :: "int option"
  checks :: "string \<rightharpoonup> bool"

datatype py_error = OverflowError | KeyError | ValueError | ZeroDivisionError

text \<open>
  \<^verbatim>\<open>HABITS\<close> is a list of triples (key, emoji, label). Every loop of the
  ledger code is \<^verbatim>\<open>for key, _, _ in HABITS\<close>, so the list of keys is kept
  and the two display components are dropped.
\<close>

definition HABITS :: "string list" where
  "HABITS = [''wake'', ''water'', ''study'', ''workout'', ''sleep'']"

text \<open>\<^verbatim>\<open>total = len(HABITS)\<close>\<close>

definition total :: nat where
  "total = length HABITS"

subsection \<open>Calendar dates\<close>

text \<open>
  A \<^verbatim>\<open>datetime.date\<close> is represented by its proleptic Gregorian ordinal
  (\<^verbatim>\<open>date.toordinal()\<close>): day 1 is 0001-01-01 and \<^verbatim>\<open>date.max\<close> is day
  3652059. Subtracting a \<^verbatim>\<open>timedelta\<close> raises \<^verbatim>\<open>OverflowError\<close> when the
  result leaves that range. \<open>ord2ymd\<close> and \<open>isoformat\<close> follow the standard
  library's conversion of an ordinal to year, month and day and its
  \<^verbatim>\<open>"%04d-%02d-%02d"\<close> format.
\<close>

type_synonym pydate = int

definition MAXORDINAL :: int where
  "MAXORDINAL = 3652059"

definition date_sub_days :: "pydate \<Rightarrow> int \<Rightarrow> py_error + pydate" where
  "date_sub_days d i =
     (let o' = d - i in if 0 < o' \<and> o' \<le> MAXORDINAL then Inr o' else Inl OverflowError)"

definition DAYS_IN_MONTH :: "int list" where
  "DAYS_IN_MONTH = [-1, 31, 28, 31, 30, 31, 30, 31, 31, 30, 31, 30, 31]"

definition DAYS_BEFORE_MONTH :: "int list" where
  "DAYS_BEFORE_MONTH = [-1, 0, 31, 59, 90, 120, 151, 181, 212, 243, 273, 304, 334]"

definition ord2ymd :: "int \<Rightarrow> int \<times> int \<times> int" where
  "ord2ymd n0 =
     (let n = n0 - 1;
          n400 = n div 146097; n = n mod 146097;
          year = n400 * 400 + 1;
          n100 = n div 36524; n = n mod 36524;
          n4 = n div 1461; n = n mod 1461;
          n1 = n div 365; n = n mod 365;
          year = year + n100 * 100 + n4 * 4 + n1
      in if n1 = 4 \<or> n100 = 4 then (year - 1, 12, 31)
         else
           (let leapyear = (n1 = 3 \<and> (n4 \<noteq> 24 \<or> n100 = 3));
                month = (n + 50) div 32;
                preceding = DAYS_BEFORE_MONTH ! nat month
                            + (if 2 < month \<and> leapyear then 1 else 0)
            in if n < preceding
               then
                 (let month = month - 1;
                      preceding = preceding - (DAYS_IN_MONTH ! nat month
                                   + (if month = 2 \<and> leapyear then 1 else 0))
                  in (year, month, n - preceding + 1))
               else (year, month, n - preceding + 1)))"

definition digit :: "int \<Rightarrow> char" where
  "digit n = ''0123456789'' ! nat (n mod 10)"

definition isoformat :: "pydate \<Rightarrow> string" where
  "isoformat d =
     (case ord2ymd d of (y, m, dd) \<Rightarrow>
        [digit (y div 1000), digit (y div 100), digit (y div 10), digit y]
        @ ''-'' @ [digit (m div 10), digit m]
        @ ''-'' @ [digit (dd div 10), digit dd])"

subsection \<open>Seeding: \<^verbatim>\<open>_init_demo_history\<close>\<close>

definition patterns :: "(int list \<times> int) list" where
  "patterns =
     [([1, 1, 0, 0, 1], 6),
      ([1, 0, 1, 0, 1], 7),
      ([1, 1, 1, 0, 0], 5),
      ([0, 1, 1, 1, 0], 8),
      ([1, 1, 1, 1, 0], 9),
      ([0, 0, 1, 1, 1], 7)]"

text \<open>
  The body of the seeding loop: a dict with date and mood, then
  \<^verbatim>\<open>entry[key] = bool(c)\<close> for the keys zipped with the row's checks.
\<close>

definition demo_entry :: "pydate \<Rightarrow> int list \<times> int \<Rightarrow> entry" where
  "demo_entry d p =
     fold (\<lambda>(key, c) entry. entry\<lparr>checks := (checks entry)(key \<mapsto> (c \<noteq> 0))\<rparr>)
       (zip HABITS (fst p))
       \<lparr>date = Some (isoformat d), mood = Some (snd p), checks = Map.empty\<rparr>"

text \<open>
  \<^verbatim>\<open>for i in range(6, 0, -1)\<close>: the list of the remaining values of \<open>i\<close> is the
  second argument, the list \<^verbatim>\<open>demo\<close> built so far the third.
\<close>

fun demo_loop :: "pydate \<Rightarrow> nat list \<Rightarrow> entry list \<Rightarrow> py_error + entry list" where
  "demo_loop today [] demo = Inr demo"
| "demo_loop today (i # rest) demo =
     (case date_sub_days today (int i) of
        Inl err \<Rightarrow> Inl err
      | Inr d \<Rightarrow> demo_loop today rest (demo @ [demo_entry d (patterns ! (6 - i))]))"

text \<open>
  The all-false entry with mood 6, built the same way in \<^verbatim>\<open>_init_demo_history\<close>
  and in \<^verbatim>\<open>_get_today_entry\<close>:
  \<^verbatim>\<open>entry_today = {"date": today_str, "mood": 6}\<close>, then
  \<^verbatim>\<open>entry_today[key] = False\<close> for every key.
\<close>

definition entry_today :: "string \<Rightarrow> entry" where
  "entry_today today_str =
     fold (\<lambda>key entry. entry\<lparr>checks := (checks entry)(key \<mapsto> False)\<rparr>) HABITS
       \<lparr>date = Some today_str, mood = Some 6, checks = Map.empty\<rparr>"

text \<open>
  An entry written out as the dict literal
  \<^verbatim>\<open>{"date": d, "mood": m, "wake": .., "water": .., "study": .., "workout": .., "sleep": ..}\<close>.
\<close>

definition habit_entry ::
  "string \<Rightarrow> int \<Rightarrow> bool \<Rightarrow> bool \<Rightarrow> bool \<Rightarrow> bool \<Rightarrow> bool \<Rightarrow> entry" where
  "habit_entry d m wake water study workout sleep =
     \<lparr>date = Some d, mood = Some m,
      checks = [''wake'' \<mapsto> wake, ''water'' \<mapsto> water, ''study'' \<mapsto> study,
                ''workout'' \<mapsto> workout, ''sleep'' \<mapsto> sleep]\<rparr>"

definition init_demo_history :: "pydate \<Rightarrow> py_error + entry list" where
  "init_demo_history today =
     (case demo_loop today [6, 5, 4, 3, 2, 1] [] of
        Inl err \<Rightarrow> Inl err
      | Inr demo \<Rightarrow> Inr (demo @ [entry_today (isoformat today)]))"

subsection \<open>The ledger operations\<close>

text \<open>The slice \<^verbatim>\<open>history[-7:]\<close>: the last seven elements, or all of a shorter list.\<close>

definition last7 :: "'a list \<Rightarrow> 'a list" where
  "last7 xs = drop (length xs - 7) xs"

text \<open>
  \<^verbatim>\<open>_get_today_entry\<close>, with the clock's \<^verbatim>\<open>date.today().isoformat()\<close> as the
  argument \<open>today_str\<close> and the list \<^verbatim>\<open>st.session_state.history\<close> passed in and
  returned. The loop returns the first entry whose date is \<open>today_str\<close>.
\<close>

definition get_today_entry :: "string \<Rightarrow> entry list \<Rightarrow> entry list \<times> entry" where
  "get_today_entry today_str history =
     (case find (\<lambda>e. date e = Some today_str) history of
        Some e \<Rightarrow> (history, e)
      | None \<Rightarrow>
          (let e = entry_today today_str
           in (last7 (history @ [e]), e)))"

text \<open>
  The loop of \<^verbatim>\<open>_save_today\<close>: the first entry whose date is \<open>today_str\<close> is
  overwritten and the loop breaks; the flag \<^verbatim>\<open>replaced\<close> is returned with the
  list.
\<close>

fun replace_first :: "string \<Rightarrow> entry \<Rightarrow> entry list \<Rightarrow> entry list \<times> bool" where
  "replace_first today_str entry [] = ([], False)"
| "replace_first today_str entry (e # es) =
     (if date e = Some today_str then (entry # es, True)
      else (case replace_first today_str entry es of (es', replaced) \<Rightarrow> (e # es', replaced)))"

definition save_today :: "string \<Rightarrow> entry \<Rightarrow> entry list \<Rightarrow> entry list" where
  "save_today today_str entry history =
     (case replace_first today_str entry history of
        (history', replaced) \<Rightarrow>
          last7 (if \<not> replaced then history' @ [entry] else history'))"


text \<open>
  The dates a ledger holds, in order (an entry without the key has none), and
  the invariant that no two entries share a date.
\<close>

fun entry_dates :: "entry list \<Rightarrow> string list" where
  "entry_dates [] = []"
| "entry_dates (e # es) =
     (case date e of None \<Rightarrow> entry_dates es | Some d \<Rightarrow> d # entry_dates es)"


subsection \<open>Floating point\<close>

text \<open>
  A Python float is an IEEE binary64 number. A finite double is represented by
  the rational number it denotes, and \<open>fl\<close> rounds a rational to the nearest
  double, ties to the even significand (53 bits). The exponent range is not
  modelled: the operands here lie between 0 and 100, far from overflow and from
  the subnormal numbers.
\<close>

fun bit_length :: "nat \<Rightarrow> nat" where
  "bit_length n = (if n = 0 then 0 else Suc (bit_length (n div 2)))"

declare bit_length.simps [simp del]

text \<open>\<open>ilog2 x\<close> is the exponent \<open>e\<close> with \<open>2 ^ e \<le> x < 2 ^ (e + 1)\<close>, for \<open>0 < x\<close>.\<close>

definition ilog2 :: "rat \<Rightarrow> int" where
  "ilog2 x =
     (if 1 \<le> x then int (bit_length (nat \<lfloor>x\<rfloor>)) - 1
      else - int (bit_length (nat (\<lceil>1 / x\<rceil> - 1))))"

definition pow2 :: "int \<Rightarrow> rat" where
  "pow2 e = (if 0 \<le> e then 2 ^ nat e else 1 / 2 ^ nat (- e))"

definition round_half_even :: "rat \<Rightarrow> int" where
  "round_half_even x =
     (let f = \<lfloor>x\<rfloor>; r = x - of_int f
      in if r < 1 / 2 then f
         else if 1 / 2 < r then f + 1
         else if even f then f else f + 1)"

definition fl :: "rat \<Rightarrow> rat" where
  "fl x =
     (if x = 0 then 0
      else (let ulp = pow2 (ilog2 \<bar>x\<bar> - 52)
            in of_int (round_half_even (x / ulp)) * ulp))"

text \<open>
  Python's \<^verbatim>\<open>a / b\<close> on ints raises \<^verbatim>\<open>ZeroDivisionError\<close> for a zero
  divisor and otherwise gives the exact quotient, rounded once; \<^verbatim>\<open>x * y\<close> on
  floats is the exact product, rounded once. \<^verbatim>\<open>round(x)\<close> on a float gives the
  nearest int, ties to even.
\<close>

definition truediv :: "int \<Rightarrow> int \<Rightarrow> py_error + rat" where
  "truediv a b = (if b = 0 then Inl ZeroDivisionError else Inr (fl (of_int a / of_int b)))"

definition fmul :: "rat \<Rightarrow> rat \<Rightarrow> rat" where
  "fmul x y = fl (x * y)"

definition py_round :: "rat \<Rightarrow> int" where
  "py_round x = round_half_even x"

text \<open>
  On a pandas column, \<^verbatim>\<open>/\<close> by a non-zero int is the float quotient of each
  cell, rounded once (a zero divisor gives inf or NaN there and is not
  modelled: the divisor is \<^verbatim>\<open>total\<close>). \<^verbatim>\<open>round(0)\<close> keeps the float type
  and rounds ties to even; \<^verbatim>\<open>astype(int)\<close> truncates toward zero.
\<close>

definition np_truediv :: "int \<Rightarrow> int \<Rightarrow> rat" where
  "np_truediv a b = fl (of_int a / of_int b)"

definition np_round0 :: "rat \<Rightarrow> rat" where
  "np_round0 x = of_int (round_half_even x)"

definition astype_int :: "rat \<Rightarrow> int" where
  "astype_int x = (if 0 \<le> x then \<lfloor>x\<rfloor> else \<lceil>x\<rceil>)"

subsection \<open>Today's summary\<close>

text \<open>
  The widgets are outside the ledger: what the five checkboxes and the slider
  return in this run of the script is an input.
\<close>

record widgets =
  checkbox :: "string \<Rightarrow> bool"
  slider :: int

text \<open>
  The check-in block: \<^verbatim>\<open>today_entry[k] = col.checkbox(...)\<close> for the five keys
  in order, then \<^verbatim>\<open>today_entry["mood"] = mood\<close> with the slider's value.
\<close>

definition checkin :: "widgets \<Rightarrow> entry \<Rightarrow> entry" where
  "checkin w today_entry =
     (fold (\<lambda>key entry. entry\<lparr>checks := (checks entry)(key \<mapsto> checkbox w key)\<rparr>)
        HABITS today_entry)\<lparr>mood := Some (slider w)\<rparr>"

text \<open>
  \<^verbatim>\<open>sum(1 for key, _, _ in HABITS if today_entry.get(key))\<close>: a missing key
  gives \<^verbatim>\<open>None\<close>, which is falsy.
\<close>

definition checked_count :: "entry \<Rightarrow> nat" where
  "checked_count today_entry =
     length (filter (\<lambda>key. checks today_entry key = Some True) HABITS)"

text \<open>\<^verbatim>\<open>round((checked_count / total) * 100)\<close>\<close>

definition achievement :: "entry \<Rightarrow> py_error + int" where
  "achievement today_entry =
     (case truediv (int (checked_count today_entry)) (int total) of
        Inl err \<Rightarrow> Inl err
      | Inr q \<Rightarrow> Inr (py_round (fmul q 100)))"

record summary =
  s_achievement :: int
  s_checked_count :: nat
  s_total :: nat
  s_mood :: int

text \<open>
  The three metrics of the summary: \<^verbatim>\<open>achievement\<close>,
  \<^verbatim>\<open>checked_count\<close> of \<^verbatim>\<open>total\<close>, and \<^verbatim>\<open>mood\<close>, the slider's value.
\<close>

definition today_summary :: "entry \<Rightarrow> int \<Rightarrow> py_error + summary" where
  "today_summary today_entry mood_now =
     (case achievement today_entry of
        Inl err \<Rightarrow> Inl err
      | Inr pct \<Rightarrow>
          Inr \<lparr>s_achievement = pct,
               s_checked_count = checked_count today_entry,
               s_total = total,
               s_mood = mood_now\<rparr>)"

text \<open>
  The script from \<^verbatim>\<open>today_entry = _get_today_entry()\<close> to the three metrics.
  \<^verbatim>\<open>today_entry\<close> is the dict object that sits in the list (the first one
  with today's date), so the check-in writes through to the list; then
  \<^verbatim>\<open>_save_today(today_entry)\<close> runs. The clock gives the same date at both
  calls. The second component is the summary shown, or the exception that
  ends the run.
\<close>

definition today_block ::
  "string \<Rightarrow> widgets \<Rightarrow> entry list \<Rightarrow> entry list \<times> (py_error + summary)" where
  "today_block today_str w history =
     (case get_today_entry today_str history of
        (history1, e) \<Rightarrow>
          (let today_entry = checkin w e;
               history2 = fst (replace_first today_str today_entry history1);
               history3 = save_today today_str today_entry history2
           in (history3, today_summary today_entry (slider w))))"

text \<open>
  The script reads the clock twice, in \<^verbatim>\<open>_get_today_entry\<close> and again in
  \<^verbatim>\<open>_save_today\<close>. \<open>today_block\<close> gives both reads the same date; here the
  two reads are separate arguments, for a run during which the date changes.
\<close>

definition today_block_clocks ::
  "string \<Rightarrow> string \<Rightarrow> widgets \<Rightarrow> entry list \<Rightarrow> entry list \<times> (py_error + summary)" where
  "today_block_clocks today_str1 today_str2 w history =
     (case get_today_entry today_str1 history of
        (history1, e) \<Rightarrow>
          (let today_entry = checkin w e;
               history2 = fst (replace_first today_str1 today_entry history1);
               history3 = save_today today_str2 today_entry history2
           in (history3, today_summary today_entry (slider w))))"

subsection \<open>The seven-day series\<close>

text \<open>
  \<^verbatim>\<open>pd.DataFrame(history).copy()\<close> has one row per dict and one column per key
  that occurs in some dict; a cell whose row lacks the key is NaN. The rows are
  modelled as entries again, \<open>None\<close> now standing for NaN in a column that
  exists. A column is missing when no row has the key; only then does the
  script fill it.
\<close>

definition fill_habit :: "string \<Rightarrow> entry list \<Rightarrow> entry list" where
  "fill_habit key df =
     (if list_ex (\<lambda>r. checks r key \<noteq> None) df then df
      else map (\<lambda>r. r\<lparr>checks := (checks r)(key \<mapsto> False)\<rparr>) df)"

definition fill_mood :: "entry list \<Rightarrow> entry list" where
  "fill_mood df =
     (if list_ex (\<lambda>r. mood r \<noteq> None) df then df
      else map (\<lambda>r. r\<lparr>mood := Some 6\<rparr>) df)"

text \<open>
  \<^verbatim>\<open>df[[k for k, _, _ in HABITS]].sum(axis=1)\<close> for one row: \<^verbatim>\<open>True\<close> counts
  1, \<^verbatim>\<open>False\<close> counts 0 and NaN is skipped.
\<close>

definition achieved :: "entry \<Rightarrow> nat" where
  "achieved r =
     sum_list (map (\<lambda>key. case checks r key of Some True \<Rightarrow> 1 | _ \<Rightarrow> 0) HABITS)"

text \<open>\<^verbatim>\<open>(df["achieved"] / total * 100).round(0).astype(int)\<close> for one row.\<close>

definition achievement_pct :: "entry \<Rightarrow> int" where
  "achievement_pct r =
     astype_int (np_round0 (fmul (np_truediv (int (achieved r)) (int total)) 100))"

text \<open>
  The frame after the two fill steps, and its column
  \<^verbatim>\<open>df["achievement_pct"]\<close>.
\<close>

definition chart_frame :: "entry list \<Rightarrow> entry list" where
  "chart_frame history =
     (let df = history;
          df = fold fill_habit HABITS df;
          df = fill_mood df
      in df)"

definition achievement_pct_column :: "entry list \<Rightarrow> int list" where
  "achievement_pct_column history = map achievement_pct (chart_frame history)"

text \<open>
  The chart block. \<^verbatim>\<open>pd.to_datetime(df["date"]).dt.strftime("%m/%d")\<close> belongs
  to pandas and is the parameter \<open>strftime_md\<close>: it maps the date column
  (NaN as \<open>None\<close>) to the display strings or raises. Reading the column raises
  \<^verbatim>\<open>KeyError\<close> when no row has a date. The result is the chart's input, the
  pairs of display date and percentage.
\<close>

definition series ::
  "(string option list \<Rightarrow> py_error + string option list) \<Rightarrow> entry list
   \<Rightarrow> py_error + (string option \<times> int) list" where
  "series strftime_md history =
     (let df = chart_frame history;
          pct = achievement_pct_column history
      in if \<not> list_ex (\<lambda>r. date r \<noteq> None) df then Inl KeyError
         else (case strftime_md (map date df) of
                 Inl err \<Rightarrow> Inl err
               | Inr shown \<Rightarrow> Inr (zip shown pct)))"

text \<open>
  The same block as a run of assignments over the script's variables: the
  session's list, the frame \<^verbatim>\<open>df\<close> (built from a copy of the records) and the
  two columns the chart reads. The block returns the variables as it leaves
  them, at its end or at the exception, with the chart's input or the
  exception.
\<close>

record script_vars =
  v_history :: "entry list"
  v_df :: "entry list"
  v_pct :: "int list"
  v_shown :: "string option list"

definition chart_block ::
  "(string option list \<Rightarrow> py_error + string option list) \<Rightarrow> script_vars
   \<Rightarrow> script_vars \<times> (py_error + (string option \<times> int) list)" where
  "chart_block strftime_md v0 =
     (let v = v0\<lparr>v_df := v_history v0\<rparr>;
          v = v\<lparr>v_df := fold fill_habit HABITS (v_df v)\<rparr>;
          v = v\<lparr>v_df := fill_mood (v_df v)\<rparr>;
          v = v\<lparr>v_pct := map achievement_pct (v_df v)\<rparr>
      in if \<not> list_ex (\<lambda>r. date r \<noteq> None) (v_df v) then (v, Inl KeyError)
         else (case strftime_md (map date (v_df v)) of
                 Inl err \<Rightarrow> (v, Inl err)
               | Inr shown \<Rightarrow> (v\<lparr>v_shown := shown\<rparr>, Inr (zip shown (v_pct v)))))"


text \<open>
  What \<open>strftime_md\<close> does on the dates the program stores, ISO strings
  \<^verbatim>\<open>YYYY-MM-DD\<close>: month and day, separated by a slash.
\<close>

definition iso_month_day :: "string \<Rightarrow> string" where
  "iso_month_day s = take 2 (drop 5 s) @ ''/'' @ take 2 (drop 8 s)"

definition strftime_md_iso :: "string option list \<Rightarrow> py_error + string option list" where
  "strftime_md_iso col = Inr (map (map_option iso_month_day) col)"


text \<open>The number of the five habits an entry has true.\<close>

definition habits_true :: "entry \<Rightarrow> nat" where
  "habits_true e = card {key \<in> set HABITS. checks e key = Some True}"

text \<open>Widgets as a fresh entry shows them: no box ticked, the slider at 6.\<close>

definition untouched :: widgets where
  "untouched = \<lparr>checkbox = (\<lambda>key. False), slider = 6\<rparr>"

text \<open>Three boxes ticked and the slider at 8.\<close>

definition three_ticked :: widgets where
  "three_ticked =
     \<lparr>checkbox = (\<lambda>key. key = ''wake'' \<or> key = ''water'' \<or> key = ''sleep''), slider = 8\<rparr>"

subsection \<open>Sample ledgers\<close>

text \<open>The seeded ledger of 2024-06-10.\<close>

definition june_ledger :: "entry list" where
  "june_ledger =
     [habit_entry ''2024-06-04'' 6 True True False False True,
      habit_entry ''2024-06-05'' 7 True False True False True,
      habit_entry ''2024-06-06'' 5 True True True False False,
      habit_entry ''2024-06-07'' 8 False True True True False,
      habit_entry ''2024-06-08'' 9 True True True True False,
      habit_entry ''2024-06-09'' 7 False False True True True,
      habit_entry ''2024-06-10'' 6 False False False False False]"

text \<open>An upsert of a day with every habit done and mood 10.\<close>

definition full_day :: "string \<Rightarrow> string \<times> entry" where
  "full_day d = (d, habit_entry d 10 True True True True True)"



text \<open>The script's variables before the chart block, the session holding the seeded ledger.\<close>

definition june_vars :: script_vars where
  "june_vars = \<lparr>v_history = june_ledger, v_df = [], v_pct = [], v_shown = []\<rparr>"


section \<open>Properties\<close>

subsection \<open>The slice and the two loops\<close>

lemma length_last7: "length (last7 xs) \<le> 7"
  by (simp add: last7_def)

lemma last7_short: "length xs \<le> 7 \<Longrightarrow> last7 xs = xs"
  by (simp add: last7_def)

lemma last7_snoc: "last7 (xs @ [x]) = drop (length xs - 6) xs @ [x]"
  by (simp add: last7_def)




lemma entry_today_literal: "entry_today d = habit_entry d 6 False False False False False"
  by (simp add: entry_today_def habit_entry_def HABITS_def)

lemma date_habit_entry: "date (habit_entry d m a b c x y) = Some d"
  by (simp add: habit_entry_def)

lemma date_entry_today: "date (entry_today d) = Some d"
  by (simp add: entry_today_literal date_habit_entry)

lemma date_full_day: "fst (full_day d) = d" "date (snd (full_day d)) = Some d"
  by (simp_all add: full_day_def date_habit_entry)

lemma find_date_Some:
  "find (\<lambda>e. date e = Some d) h = Some e \<Longrightarrow> date e = Some d \<and> e \<in> set h"
  by (induction h) (auto split: if_splits)

lemma replace_first_absent:
  "\<forall>e\<in>set h. date e \<noteq> Some d \<Longrightarrow> replace_first d x h = (h, False)"
  by (induction h) auto

lemma snd_replace_first: "snd (replace_first d x h) = (\<exists>e\<in>set h. date e = Some d)"
  by (induction h) (auto split: prod.splits)

lemma length_replace_first: "length (fst (replace_first d x h)) = length h"
  by (induction h) (auto split: prod.splits)

lemma replace_first_again:
  "date x = Some d \<Longrightarrow> snd (replace_first d x h) \<Longrightarrow>
   replace_first d x (fst (replace_first d x h)) = (fst (replace_first d x h), True)"
  by (induction h) (auto split: prod.splits)

lemma replace_first_snoc:
  "\<forall>e\<in>set ys. date e \<noteq> Some d \<Longrightarrow> date x = Some d \<Longrightarrow>
   replace_first d x' (ys @ [x]) = (ys @ [x'], True)"
  by (induction ys) auto

lemma save_today_absent:
  "\<forall>e\<in>set h. date e \<noteq> Some d \<Longrightarrow> save_today d x h = last7 (h @ [x])"
  by (simp add: save_today_def replace_first_absent)


lemma save_today_fixpoint:
  assumes "date x = Some d" "snd (replace_first d x h)" "length h \<le> 7"
  shows "save_today d x (fst (replace_first d x h)) = fst (replace_first d x h)"
proof -
  let ?r = "fst (replace_first d x h)"
  have len: "length ?r \<le> 7" using assms(3) by (simp add: length_replace_first)
  have "replace_first d x ?r = (?r, True)" using assms(1,2) by (rule replace_first_again)
  with len show ?thesis by (simp add: save_today_def last7_short)
qed



subsection \<open>Find-or-create\<close>

lemma get_today_entry_present:
  "find (\<lambda>e. date e = Some d) h = Some e \<Longrightarrow> get_today_entry d h = (h, e)"
  by (simp add: get_today_entry_def)

lemma get_today_entry_absent:
  assumes "\<forall>e\<in>set h. date e \<noteq> Some d"
  shows "get_today_entry d h = (last7 (h @ [entry_today d]), entry_today d)"
proof -
  have "find (\<lambda>e. date e = Some d) h = None" using assms by (simp add: find_None_iff)
  then show ?thesis by (simp add: get_today_entry_def Let_def)
qed

text \<open>
  C3. For every ledger and requested date: when an entry with that date is
  present, the operation returns the first such entry and the ledger as it
  was, nothing appended. Otherwise it appends one new entry with the five
  habits false and mood 6, keeps the last seven records and returns the new
  entry. The returned entry's date is the requested date, and a ledger of at
  most seven entries comes back with at most seven.
\<close>

theorem get_today_entry_find_or_create:
  "((\<exists>e\<in>set h. date e = Some d) \<longrightarrow>
      fst (get_today_entry d h) = h
      \<and> find (\<lambda>e. date e = Some d) h = Some (snd (get_today_entry d h))
      \<and> snd (get_today_entry d h) \<in> set h)
   \<and> ((\<forall>e\<in>set h. date e \<noteq> Some d) \<longrightarrow>
      get_today_entry d h
        = (drop (length (h @ [habit_entry d 6 False False False False False]) - 7)
             (h @ [habit_entry d 6 False False False False False]),
           habit_entry d 6 False False False False False))
   \<and> (length h \<le> 7 \<longrightarrow> length (fst (get_today_entry d h)) \<le> 7)
   \<and> date (snd (get_today_entry d h)) = Some d"
proof (cases "find (\<lambda>e. date e = Some d) h")
  case None
  then have absent: "\<forall>e\<in>set h. date e \<noteq> Some d" by (simp add: find_None_iff)
  then have "get_today_entry d h = (last7 (h @ [entry_today d]), entry_today d)"
    by (rule get_today_entry_absent)
  with absent show ?thesis
    by (simp add: length_last7 date_entry_today) (simp add: last7_def entry_today_literal)
next
  case (Some e)
  then have e: "date e = Some d" "e \<in> set h" using find_date_Some by blast+
  have "get_today_entry d h = (h, e)" using Some by (rule get_today_entry_present)
  with Some e show ?thesis by auto
qed

theorem get_today_entry_find_or_create_witness:
  "get_today_entry ''2024-06-10'' june_ledger
     = (june_ledger, habit_entry ''2024-06-10'' 6 False False False False False)
   \<and> get_today_entry ''2024-06-11'' june_ledger
     = (drop 1 june_ledger @ [habit_entry ''2024-06-11'' 6 False False False False False],
        habit_entry ''2024-06-11'' 6 False False False False False)
   \<and> length (fst (get_today_entry ''2024-06-11'' june_ledger)) = 7"
proof -
  have p: "\<exists>e\<in>set june_ledger. date e = Some ''2024-06-10''"
    by (simp add: june_ledger_def date_habit_entry)
  have f: "find (\<lambda>e. date e = Some ''2024-06-10'') june_ledger
           = Some (habit_entry ''2024-06-10'' 6 False False False False False)"
    by (simp add: june_ledger_def date_habit_entry)
  have a: "\<forall>e\<in>set june_ledger. date e \<noteq> Some ''2024-06-11''"
    by (simp add: june_ledger_def date_habit_entry)
  have l: "length june_ledger = 7" by (simp add: june_ledger_def)
  from get_today_entry_find_or_create [of june_ledger "''2024-06-10''"] p f
  have 1: "get_today_entry ''2024-06-10'' june_ledger
     = (june_ledger, habit_entry ''2024-06-10'' 6 False False False False False)"
    by (metis option.inject prod.collapse)
  from get_today_entry_find_or_create [of june_ledger "''2024-06-11''"] a l
  have 2: "get_today_entry ''2024-06-11'' june_ledger
     = (drop 1 june_ledger @ [habit_entry ''2024-06-11'' 6 False False False False False],
        habit_entry ''2024-06-11'' 6 False False False False False)"
    by simp
  from 1 2 l show ?thesis by simp
qed

text \<open>
  C10. For a ledger of any length, also one longer than seven: when no entry
  has the requested date, the entry that find-or-create makes is in the
  trimmed ledger it returns, as its last element.
\<close>

theorem created_entry_is_last:
  assumes "\<forall>e\<in>set h. date e \<noteq> Some d"
  shows "snd (get_today_entry d h) = habit_entry d 6 False False False False False
     \<and> fst (get_today_entry d h) \<noteq> []
     \<and> last (fst (get_today_entry d h)) = snd (get_today_entry d h)
     \<and> snd (get_today_entry d h) \<in> set (fst (get_today_entry d h))"
proof -
  have "get_today_entry d h = (drop (length h - 6) h @ [entry_today d], entry_today d)"
    using assms by (simp add: get_today_entry_absent last7_snoc)
  then show ?thesis by (simp add: entry_today_literal)
qed

theorem created_entry_is_last_witness:
  "last (fst (get_today_entry ''2024-06-11'' (june_ledger @ june_ledger)))
     = habit_entry ''2024-06-11'' 6 False False False False False
   \<and> snd (get_today_entry ''2024-06-11'' (june_ledger @ june_ledger))
     = habit_entry ''2024-06-11'' 6 False False False False False
   \<and> map date (fst (get_today_entry ''2024-06-11'' (june_ledger @ june_ledger)))
     = [Some ''2024-06-05'', Some ''2024-06-06'', Some ''2024-06-07'', Some ''2024-06-08'',
        Some ''2024-06-09'', Some ''2024-06-10'', Some ''2024-06-11'']"
proof -
  have a: "\<forall>e\<in>set (june_ledger @ june_ledger). date e \<noteq> Some ''2024-06-11''"
    by (simp add: june_ledger_def date_habit_entry)
  have m: "map date (fst (get_today_entry ''2024-06-11'' (june_ledger @ june_ledger)))
     = [Some ''2024-06-05'', Some ''2024-06-06'', Some ''2024-06-07'', Some ''2024-06-08'',
        Some ''2024-06-09'', Some ''2024-06-10'', Some ''2024-06-11'']"
    by (simp add: get_today_entry_absent [OF a] last7_def)
       (simp add: june_ledger_def date_habit_entry date_entry_today)
  from created_entry_is_last [OF a] m show ?thesis by simp
qed

subsection \<open>Upsert\<close>

text \<open>
  In the script the entry handed to \<^verbatim>\<open>_save_today\<close> is today's entry, whose
  date is the date the clock gives: an upsert of an entry is the call with
  \<open>today_str\<close> equal to the entry's own date. This is the premise
  \<open>date x = Some d\<close> below.
\<close>


















subsection \<open>The float model\<close>

text \<open>
  \<open>fl x\<close> is a 53-bit significand times a power of two, and no such number is
  nearer to \<open>x\<close>: it differs from \<open>x\<close> by at most half a unit in the last
  place.
\<close>

lemma bit_length_bounds: "0 < n \<Longrightarrow> 2 ^ (bit_length n - 1) \<le> n \<and> n < 2 ^ bit_length n"
proof (induction n rule: bit_length.induct)
  case (1 n)
  show ?case
  proof (cases "n div 2 = 0")
    case True
    with 1 have "n = 1" by linarith
    then show ?thesis by (simp add: bit_length.simps)
  next
    case False
    then have pos: "0 < n div 2" by simp
    have bl: "bit_length n = Suc (bit_length (n div 2))"
      using 1(2) by (subst bit_length.simps) simp
    from 1(1) [OF _ pos] 1(2)
    have ih: "2 ^ (bit_length (n div 2) - 1) \<le> n div 2" "n div 2 < 2 ^ bit_length (n div 2)"
      by auto
    have gt: "0 < bit_length (n div 2)"
      using pos by (subst bit_length.simps) simp
    then have "(2::nat) ^ bit_length (n div 2) = 2 * 2 ^ (bit_length (n div 2) - 1)"
      by (cases "bit_length (n div 2)") simp_all
    with ih show ?thesis unfolding bl by simp linarith
  qed
qed

lemma round_half_even_error: "\<bar>of_int (round_half_even y) - y\<bar> \<le> 1 / 2"
proof -
  have "of_int \<lfloor>y\<rfloor> \<le> y" "y < of_int \<lfloor>y\<rfloor> + 1" by linarith+
  then show ?thesis
    by (auto simp: round_half_even_def Let_def abs_le_iff)
qed

lemma ilog2_bracket:
  assumes "0 < x"
  shows "pow2 (ilog2 x) \<le> x \<and> x < 2 * pow2 (ilog2 x)"
proof (cases "1 \<le> x")
  case True
  let ?n = "nat \<lfloor>x\<rfloor>"
  have n: "0 < ?n" using True by simp
  have e: "ilog2 x = int (bit_length ?n) - 1" using True by (simp add: ilog2_def)
  have bl: "0 < bit_length ?n" using n by (subst bit_length.simps) simp
  then have p: "pow2 (ilog2 x) = 2 ^ (bit_length ?n - 1)"
    by (simp add: e pow2_def nat_diff_distrib)
  from bit_length_bounds [OF n]
  have b: "2 ^ (bit_length ?n - 1) \<le> ?n" "?n < 2 ^ bit_length ?n" by simp_all
  have "(2::rat) ^ (bit_length ?n - 1) \<le> of_nat ?n"
    using b(1) by (metis of_nat_le_iff of_nat_numeral of_nat_power)
  also have "\<dots> \<le> x" using True by simp
  finally have lo: "pow2 (ilog2 x) \<le> x" by (simp add: p)
  have "?n + 1 \<le> 2 ^ bit_length ?n" using b(2) by linarith
  then have "(of_nat (?n + 1) :: rat) \<le> 2 ^ bit_length ?n"
    by (metis of_nat_le_iff of_nat_numeral of_nat_power)
  moreover have "x < of_nat (?n + 1)" using True by simp linarith
  ultimately have "x < 2 ^ bit_length ?n" by linarith
  moreover have "(2::rat) ^ bit_length ?n = 2 * 2 ^ (bit_length ?n - 1)"
    using bl by (cases "bit_length ?n") simp_all
  ultimately show ?thesis using lo by (simp add: p)
next
  case False
  let ?c = "\<lceil>1 / x\<rceil>"
  let ?m = "nat (?c - 1)"
  let ?L = "bit_length ?m"
  have inv: "1 < 1 / x" using False assms by simp
  then have c2: "2 \<le> ?c" by linarith
  then have m: "0 < ?m" by simp
  have e: "ilog2 x = - int ?L" using False by (simp add: ilog2_def)
  have L: "0 < ?L" using m by (subst bit_length.simps) simp
  then have p: "pow2 (ilog2 x) = 1 / 2 ^ ?L" by (simp add: e pow2_def)
  from bit_length_bounds [OF m]
  have b: "2 ^ (?L - 1) \<le> ?m" "?m < 2 ^ ?L" by simp_all
  have "(of_nat ?m :: rat) = of_int (?c - 1)" using c2 by (intro of_nat_nat) linarith
  then have mc: "(of_nat ?m :: rat) = of_int ?c - 1" by simp
  have "(of_nat ?m :: rat) + 1 \<le> 2 ^ ?L"
  proof -
    have "?m + 1 \<le> 2 ^ ?L" using b(2) by linarith
    then have "(of_nat (?m + 1) :: rat) \<le> 2 ^ ?L"
      by (metis of_nat_le_iff of_nat_numeral of_nat_power)
    then show ?thesis by simp
  qed
  then have "of_int ?c \<le> (2::rat) ^ ?L" using mc by simp
  moreover have "1 / x \<le> of_int ?c" by linarith
  ultimately have up: "1 / x \<le> 2 ^ ?L" by linarith
  have "(2::rat) ^ (?L - 1) \<le> of_nat ?m"
    using b(1) by (metis of_nat_le_iff of_nat_numeral of_nat_power)
  moreover have "of_int ?c - 1 < 1 / x" by linarith
  ultimately have "(2::rat) ^ (?L - 1) < 1 / x" using mc by simp
  moreover have "(2::rat) ^ ?L = 2 * 2 ^ (?L - 1)"
    using L by (cases ?L) simp_all
  ultimately have dn: "(2::rat) ^ ?L < 2 * (1 / x)" by simp
  have P: "(0::rat) < 2 ^ ?L" by simp
  from up assms P have lo: "1 / 2 ^ ?L \<le> x" by (simp add: field_simps)
  from dn assms P have hi: "x < 2 * (1 / 2 ^ ?L)" by (simp add: field_simps)
  from lo hi show ?thesis by (simp add: p)
qed

lemma pow2_pos: "0 < pow2 e"
  by (simp add: pow2_def)

lemma fl_nearest:
  assumes "x \<noteq> 0"
  shows "\<bar>fl x - x\<bar> \<le> pow2 (ilog2 \<bar>x\<bar> - 52) / 2"
proof -
  let ?u = "pow2 (ilog2 \<bar>x\<bar> - 52)"
  have u: "0 < ?u" by (rule pow2_pos)
  have "\<bar>of_int (round_half_even (x / ?u)) - x / ?u\<bar> \<le> 1 / 2"
    by (rule round_half_even_error)
  then have "\<bar>of_int (round_half_even (x / ?u)) - x / ?u\<bar> * ?u \<le> 1 / 2 * ?u"
    using u by (simp add: mult_right_mono)
  moreover have "\<bar>of_int (round_half_even (x / ?u)) - x / ?u\<bar> * ?u
        = \<bar>of_int (round_half_even (x / ?u)) * ?u - x\<bar>"
  proof -
    have "(of_int (round_half_even (x / ?u)) - x / ?u) * ?u
          = of_int (round_half_even (x / ?u)) * ?u - x"
      using u by (simp add: left_diff_distrib)
    moreover have "\<bar>(of_int (round_half_even (x / ?u)) - x / ?u) * ?u\<bar>
          = \<bar>of_int (round_half_even (x / ?u)) - x / ?u\<bar> * ?u"
      using u by (simp add: abs_mult)
    ultimately show ?thesis by simp
  qed
  ultimately show ?thesis using assms by (simp add: fl_def Let_def)
qed

lemma pow2_power_int: "pow2 e = power_int 2 e"
  by (simp add: pow2_def power_int_def field_simps)

lemma pow2_52: "pow2 e = 2 ^ 52 * pow2 (e - 52)"
proof -
  have "power_int (2::rat) (52 + (e - 52)) = power_int 2 52 * power_int 2 (e - 52)"
    by (rule power_int_add) simp
  then show ?thesis by (simp add: pow2_power_int)
qed

lemma fl_significand:
  assumes "x \<noteq> 0"
  shows "\<exists>m. fl x = of_int m * pow2 (ilog2 \<bar>x\<bar> - 52) \<and> 2 ^ 52 \<le> \<bar>m\<bar> \<and> \<bar>m\<bar> \<le> 2 ^ 53"
proof -
  let ?u = "pow2 (ilog2 \<bar>x\<bar> - 52)"
  let ?y = "x / ?u"
  let ?m = "round_half_even ?y"
  have u: "0 < ?u" by (rule pow2_pos)
  have ax: "0 < \<bar>x\<bar>" using assms by simp
  from ilog2_bracket [OF ax]
  have "2 ^ 52 * ?u \<le> \<bar>x\<bar>" "\<bar>x\<bar> < 2 * (2 ^ 52 * ?u)"
    using pow2_52 [of "ilog2 \<bar>x\<bar>"] by simp_all
  then have y: "2 ^ 52 \<le> \<bar>?y\<bar>" "\<bar>?y\<bar> < 2 ^ 53"
    using u by (simp_all add: field_simps)
  have err: "\<bar>of_int ?m - ?y\<bar> \<le> 1 / 2" by (rule round_half_even_error)
  have "\<bar>(of_int ?m :: rat)\<bar> < 2 ^ 53 + 1" using err y(2) by linarith
  then have "(of_int \<bar>?m\<bar> :: rat) < of_int (2 ^ 53 + 1)" by simp
  then have "\<bar>?m\<bar> < 2 ^ 53 + 1" by (simp only: of_int_less_iff)
  then have hi: "\<bar>?m\<bar> \<le> 2 ^ 53" by simp
  have "(2 ^ 52 - 1 :: rat) < \<bar>of_int ?m\<bar>" using err y(1) by linarith
  then have "(of_int (2 ^ 52 - 1) :: rat) < of_int \<bar>?m\<bar>" by simp
  then have "2 ^ 52 - 1 < \<bar>?m\<bar>" by (simp only: of_int_less_iff)
  then have lo: "2 ^ 52 \<le> \<bar>?m\<bar>" by simp
  have "fl x = of_int ?m * ?u" using assms by (simp add: fl_def Let_def)
  with lo hi show ?thesis by blast
qed

subsection \<open>The achievement percentage\<close>

lemma length_HABITS: "length HABITS = 5"
  by (simp add: HABITS_def)

lemma total_5: "total = 5"
  by (simp add: total_def HABITS_def)

lemma distinct_HABITS: "distinct HABITS"
  by (simp add: HABITS_def)

text \<open>The six quotients and products, rounded as binary64 numbers.\<close>

lemma py_path_0: "py_round (fmul (fl 0) 100) = 0" by code_simp
lemma py_path_1: "py_round (fmul (fl (1 / 5)) 100) = 20" by code_simp
lemma py_path_2: "py_round (fmul (fl (2 / 5)) 100) = 40" by code_simp
lemma py_path_3: "py_round (fmul (fl (3 / 5)) 100) = 60" by code_simp
lemma py_path_4: "py_round (fmul (fl (4 / 5)) 100) = 80" by code_simp
lemma py_path_5: "py_round (fmul (fl 1) 100) = 100" by code_simp

lemma np_path_0: "astype_int (np_round0 (fmul (fl 0) 100)) = 0" by code_simp
lemma np_path_1: "astype_int (np_round0 (fmul (fl (1 / 5)) 100)) = 20" by code_simp
lemma np_path_2: "astype_int (np_round0 (fmul (fl (2 / 5)) 100)) = 40" by code_simp
lemma np_path_3: "astype_int (np_round0 (fmul (fl (3 / 5)) 100)) = 60" by code_simp
lemma np_path_4: "astype_int (np_round0 (fmul (fl (4 / 5)) 100)) = 80" by code_simp
lemma np_path_5: "astype_int (np_round0 (fmul (fl 1) 100)) = 100" by code_simp

lemma up_to_5: "k \<le> 5 \<Longrightarrow> k = 0 \<or> k = 1 \<or> k = 2 \<or> k = 3 \<or> k = 4 \<or> k = (5::nat)"
  by arith

lemma py_path:
  "k \<le> 5 \<Longrightarrow> truediv (int k) 5 = Inr (fl (of_nat k / 5))
     \<and> py_round (fmul (fl (of_nat k / 5)) 100) = 20 * int k"
  using up_to_5 [of k] py_path_0 py_path_1 py_path_2 py_path_3 py_path_4 py_path_5
  by (auto simp: truediv_def)

lemma np_path:
  "k \<le> 5 \<Longrightarrow> astype_int (np_round0 (fmul (np_truediv (int k) 5) 100)) = 20 * int k"
  using up_to_5 [of k] np_path_0 np_path_1 np_path_2 np_path_3 np_path_4 np_path_5
  by (auto simp: np_truediv_def)

lemma exact_round: "round_half_even (of_nat k / 5 * 100) = 20 * int k"
proof -
  have "(of_nat k / 5 * 100 :: rat) = of_int (20 * int k)" by simp
  then show ?thesis by (simp only: round_half_even_def Let_def floor_of_int) simp
qed

lemma checked_count_le: "checked_count e \<le> 5"
  using length_filter_le [of "\<lambda>key. checks e key = Some True" HABITS]
  by (simp add: checked_count_def length_HABITS)

lemma checked_count_habits_true: "checked_count e = habits_true e"
  by (simp add: checked_count_def habits_true_def distinct_length_filter distinct_HABITS
      Int_def conj_commute)

lemma sum_list_indicator:
  "sum_list (map (\<lambda>key. case f key of Some True \<Rightarrow> 1 | _ \<Rightarrow> 0) ks)
   = length (filter (\<lambda>key. f key = Some True) ks)"
  by (induction ks) (auto split: option.splits bool.splits)

lemma achieved_checked_count: "achieved r = checked_count r"
  by (simp add: achieved_def checked_count_def sum_list_indicator)

lemma achievement_20: "achievement e = Inr (20 * int (checked_count e))"
  using py_path [OF checked_count_le, of e]
  by (simp add: achievement_def total_5)

lemma achievement_pct_20: "achievement_pct r = 20 * int (checked_count r)"
  by (simp add: achievement_pct_def total_5 achieved_checked_count np_path checked_count_le)

subsection \<open>The fill steps\<close>

lemma checked_count_fill_one:
  assumes "checks r key = None"
  shows "checked_count (r\<lparr>checks := (checks r)(key \<mapsto> False)\<rparr>) = checked_count r"
proof -
  have "\<And>k. (((checks r)(key \<mapsto> False)) k = Some True) = (checks r k = Some True)"
    using assms by auto
  then show ?thesis by (simp add: checked_count_def)
qed

lemma fill_habit_count: "map checked_count (fill_habit key df) = map checked_count df"
  by (auto simp: fill_habit_def list_ex_iff checked_count_fill_one)

lemma fill_habit_date: "map date (fill_habit key df) = map date df"
  by (auto simp: fill_habit_def)

lemma fold_fill_habit_count: "map checked_count (fold fill_habit ks df) = map checked_count df"
  by (induction ks arbitrary: df) (simp_all add: fill_habit_count)

lemma fold_fill_habit_date: "map date (fold fill_habit ks df) = map date df"
  by (induction ks arbitrary: df) (simp_all add: fill_habit_date)

lemma fill_mood_count: "map checked_count (fill_mood df) = map checked_count df"
  by (auto simp: fill_mood_def checked_count_def)

lemma fill_mood_date: "map date (fill_mood df) = map date df"
  by (auto simp: fill_mood_def)

lemma chart_frame_count: "map checked_count (chart_frame h) = map checked_count h"
  by (simp add: chart_frame_def fill_mood_count fold_fill_habit_count)

lemma chart_frame_date: "map date (chart_frame h) = map date h"
  by (simp add: chart_frame_def fill_mood_date fold_fill_habit_date)

lemma achievement_pct_column_20:
  "achievement_pct_column h = map (\<lambda>e. 20 * int (checked_count e)) h"
proof -
  have "achievement_pct_column h
        = map (\<lambda>c. 20 * int c) (map checked_count (chart_frame h))"
    by (simp add: achievement_pct_column_def achievement_pct_20 [abs_def] comp_def)
  then show ?thesis by (simp add: chart_frame_count comp_def)
qed

lemma list_ex_date: "list_ex (\<lambda>r. date r \<noteq> None) df = (\<exists>d\<in>set (map date df). d \<noteq> None)"
  by (simp add: list_ex_iff)

lemma series_eq:
  "series f h =
     (if \<not> (\<exists>d\<in>set (map date h). d \<noteq> None) then Inl KeyError
      else (case f (map date h) of
              Inl err \<Rightarrow> Inl err
            | Inr shown \<Rightarrow> Inr (zip shown (map (\<lambda>e. 20 * int (checked_count e)) h))))"
  unfolding series_def Let_def list_ex_date chart_frame_date achievement_pct_column_20 ..

lemma checked_count_habit_entry:
  "checked_count (habit_entry d m a b c x y) = length (filter id [a, b, c, x, y])"
  by (simp add: checked_count_def habit_entry_def HABITS_def)

lemma round_half_even_numeral:
  "round_half_even (numeral n) = numeral n" "round_half_even 0 = 0"
  by (simp_all add: round_half_even_def)

text \<open>
  C4. For every entry with exactly \<open>k\<close> of the five habits true, \<open>k\<close> is at
  most 5 and the percentage the script computes, through float division,
  float product and rounding, is \<open>round (k / 5 * 100)\<close> in exact arithmetic
  with ties to even, one of 0, 20, 40, 60, 80 and 100. This holds for today's
  summary and for every row of the series.
\<close>

theorem achievement_percentage:
  "habits_true e \<le> 5
   \<and> achievement e = Inr (round_half_even (of_nat (habits_true e) / 5 * 100))
   \<and> round_half_even (of_nat (habits_true e) / 5 * 100) \<in> {0, 20, 40, 60, 80, 100}
   \<and> achievement_pct_column h
       = map (\<lambda>r. round_half_even (of_nat (habits_true r) / 5 * 100)) h"
proof -
  have le: "habits_true e \<le> 5"
    using checked_count_le [of e] by (simp add: checked_count_habits_true)
  have a: "achievement e = Inr (round_half_even (of_nat (habits_true e) / 5 * 100))"
    by (simp only: achievement_20 exact_round checked_count_habits_true)
  have "20 * int (habits_true e) \<in> {0, 20, 40, 60, 80, 100}"
    using up_to_5 [OF le] by auto
  then have m: "round_half_even (of_nat (habits_true e) / 5 * 100) \<in> {0, 20, 40, 60, 80, 100}"
    by (simp only: exact_round)
  have col: "achievement_pct_column h
       = map (\<lambda>r. round_half_even (of_nat (habits_true r) / 5 * 100)) h"
    by (simp only: achievement_pct_column_20 exact_round checked_count_habits_true)
  from le a m col show ?thesis by blast
qed

theorem achievement_percentage_witness:
  "habits_true (habit_entry ''2024-06-10'' 8 True True False False True) = 3
   \<and> achievement (habit_entry ''2024-06-10'' 8 True True False False True) = Inr 60
   \<and> achievement_pct_column june_ledger = [60, 60, 60, 60, 80, 60, 0]"
proof -
  have h: "habits_true (habit_entry d m a b c x y) = length (filter id [a, b, c, x, y])"
    for d m a b c x y
    by (simp add: checked_count_habits_true [symmetric] checked_count_habit_entry)
  from achievement_percentage
         [of "habit_entry ''2024-06-10'' 8 True True False False True" june_ledger]
  show ?thesis by (simp add: h round_half_even_numeral june_ledger_def)
qed

subsection \<open>Missing habit keys\<close>



lemma date_fold_checks:
  "date (fold (\<lambda>key entry. entry\<lparr>checks := (checks entry)(key \<mapsto> g key)\<rparr>) ks e) = date e"
  by (induction ks arbitrary: e) simp_all

lemma checks_fold_checks:
  "checks (fold (\<lambda>key entry. entry\<lparr>checks := (checks entry)(key \<mapsto> g key)\<rparr>) ks e) k
   = (if k \<in> set ks then Some (g k) else checks e k)"
  by (induction ks arbitrary: e) auto

lemma date_checkin: "date (checkin w e) = date e"
  by (simp add: checkin_def date_fold_checks)

lemma checks_checkin:
  "checks (checkin w e) k = (if k \<in> set HABITS then Some (checkbox w k) else checks e k)"
  by (simp add: checkin_def checks_fold_checks)

lemma checked_count_checkin: "checked_count (checkin w e) = length (filter (checkbox w) HABITS)"
proof -
  have "filter (\<lambda>key. checks (checkin w e) key = Some True) HABITS = filter (checkbox w) HABITS"
    by (rule filter_cong) (simp_all add: checks_checkin)
  then show ?thesis by (simp add: checked_count_def)
qed




subsection \<open>The chart block\<close>

text \<open>
  C9. For every ledger, computing the series (achieved counts, percentages
  and display dates) leaves the ledger as it was, whether the computation
  returns or raises; what it computes is the series of that ledger.
\<close>

theorem chart_block_keeps_history:
  "v_history (fst (chart_block f v)) = v_history v
   \<and> snd (chart_block f v) = series f (v_history v)"
proof -
  have h: "v_history (fst (chart_block f v)) = v_history v"
    by (simp add: chart_block_def Let_def split: sum.splits)
  have s: "snd (chart_block f v) = series f (v_history v)"
    by (simp add: chart_block_def series_def chart_frame_def achievement_pct_column_def
        Let_def split: sum.splits)
  from h s show ?thesis by simp
qed

theorem chart_block_keeps_history_witness:
  "v_history (fst (chart_block strftime_md_iso june_vars)) = june_ledger
   \<and> snd (chart_block strftime_md_iso june_vars)
     = Inr [(Some ''06/04'', 60), (Some ''06/05'', 60), (Some ''06/06'', 60),
            (Some ''06/07'', 60), (Some ''06/08'', 80), (Some ''06/09'', 60),
            (Some ''06/10'', 0)]"
proof -
  have "series strftime_md_iso june_ledger
     = Inr [(Some ''06/04'', 60), (Some ''06/05'', 60), (Some ''06/06'', 60),
            (Some ''06/07'', 60), (Some ''06/08'', 80), (Some ''06/09'', 60),
            (Some ''06/10'', 0)]"
    by (simp add: series_eq strftime_md_iso_def iso_month_day_def june_ledger_def
        checked_count_habit_entry date_habit_entry)
  with chart_block_keeps_history [of strftime_md_iso june_vars] show ?thesis
    by (simp add: june_vars_def)
qed

subsection \<open>Seeding\<close>

lemma demo_entries:
  "demo_entry d (patterns ! 0) = habit_entry (isoformat d) 6 True True False False True"
  "demo_entry d (patterns ! Suc 0) = habit_entry (isoformat d) 7 True False True False True"
  "demo_entry d (patterns ! 2) = habit_entry (isoformat d) 5 True True True False False"
  "demo_entry d (patterns ! 3) = habit_entry (isoformat d) 8 False True True True False"
  "demo_entry d (patterns ! 4) = habit_entry (isoformat d) 9 True True True True False"
  "demo_entry d (patterns ! 5) = habit_entry (isoformat d) 7 False False True True True"
  by (simp_all add: demo_entry_def patterns_def habit_entry_def HABITS_def)

lemma june_dates:
  "isoformat 739041 = ''2024-06-04''" "isoformat 739042 = ''2024-06-05''"
  "isoformat 739043 = ''2024-06-06''" "isoformat 739044 = ''2024-06-07''"
  "isoformat 739045 = ''2024-06-08''" "isoformat 739046 = ''2024-06-09''"
  "isoformat 739047 = ''2024-06-10''"
  by code_simp+

text \<open>
  C6. For a date \<open>today\<close> that has six days before it, seeding returns seven
  entries: the six days before \<open>today\<close>, oldest first, with the six rows of
  the fixed table in order, then \<open>today\<close> with the five habits false and mood
  6. The result is this list and depends on nothing but \<open>today\<close>, so two
  seedings with the same \<open>today\<close> agree.
\<close>

theorem init_demo_history_shape:
  assumes "6 < today" "today \<le> MAXORDINAL"
  shows "init_demo_history today = Inr
    [habit_entry (isoformat (today - 6)) 6 True True False False True,
     habit_entry (isoformat (today - 5)) 7 True False True False True,
     habit_entry (isoformat (today - 4)) 5 True True True False False,
     habit_entry (isoformat (today - 3)) 8 False True True True False,
     habit_entry (isoformat (today - 2)) 9 True True True True False,
     habit_entry (isoformat (today - 1)) 7 False False True True True,
     habit_entry (isoformat today) 6 False False False False False]"
proof -
  have sub: "\<And>i. 0 \<le> i \<Longrightarrow> i \<le> 6 \<Longrightarrow> date_sub_days today i = Inr (today - i)"
    using assms by (simp add: date_sub_days_def Let_def)
  show ?thesis
    by (simp add: init_demo_history_def sub demo_entries entry_today_literal)
qed

theorem init_demo_history_shape_witness:
  "init_demo_history 739047 = Inr june_ledger
   \<and> map_sum id length (init_demo_history 739047) = Inr 7"
proof -
  have r: "(6::int) < 739047" "739047 \<le> MAXORDINAL" by (simp_all add: MAXORDINAL_def)
  from init_demo_history_shape [OF r] show ?thesis
    by (simp add: june_dates june_ledger_def)
qed

lemma init_demo_history_first_week: "init_demo_history 6 = Inl OverflowError"
  by (simp add: init_demo_history_def date_sub_days_def)

subsection \<open>Today's summary\<close>

lemma checkin_habit_entry:
  "checkin w (habit_entry d m a b c x y)
   = habit_entry d (slider w) (checkbox w ''wake'') (checkbox w ''water'')
       (checkbox w ''study'') (checkbox w ''workout'') (checkbox w ''sleep'')"
  by (simp add: checkin_def habit_entry_def HABITS_def fun_eq_iff)

lemma today_summary_checkin:
  "today_summary (checkin w e) (slider w)
   = Inr \<lparr>s_achievement = 20 * int (length (filter (checkbox w) HABITS)),
          s_checked_count = length (filter (checkbox w) HABITS),
          s_total = 5,
          s_mood = slider w\<rparr>"
  by (simp add: today_summary_def achievement_20 checked_count_checkin total_5)

lemma today_block_present:
  assumes "find (\<lambda>e. date e = Some d) h = Some e"
  shows "snd (today_block d w h) = today_summary (checkin w e) (slider w)"
    and "length h \<le> 7 \<Longrightarrow> fst (today_block d w h) = fst (replace_first d (checkin w e) h)"
proof -
  let ?t = "checkin w e"
  have g: "get_today_entry d h = (h, e)" using assms by (rule get_today_entry_present)
  then show "snd (today_block d w h) = today_summary ?t (slider w)"
    by (simp add: today_block_def Let_def)
  assume len: "length h \<le> 7"
  have "date e = Some d" "e \<in> set h" using find_date_Some [OF assms] by simp_all
  then have dt: "date ?t = Some d" and r: "snd (replace_first d ?t h)"
    by (auto simp: date_checkin snd_replace_first)
  have "save_today d ?t (fst (replace_first d ?t h)) = fst (replace_first d ?t h)"
    using dt r len by (rule save_today_fixpoint)
  then show "fst (today_block d w h) = fst (replace_first d ?t h)"
    by (simp add: today_block_def g Let_def)
qed

lemma today_block_absent:
  assumes "\<forall>e\<in>set h. date e \<noteq> Some d"
  shows "today_block d w h
         = (drop (length h - 6) h @ [checkin w (entry_today d)],
            today_summary (checkin w (entry_today d)) (slider w))"
proof -
  let ?ys = "drop (length h - 6) h"
  let ?t = "checkin w (entry_today d)"
  have g: "get_today_entry d h = (?ys @ [entry_today d], entry_today d)"
    using assms by (simp add: get_today_entry_absent last7_snoc)
  have ys: "\<forall>e\<in>set ?ys. date e \<noteq> Some d" using assms by (meson in_set_dropD)
  have dt: "date ?t = Some d" by (simp add: date_checkin date_entry_today)
  have r1: "replace_first d ?t (?ys @ [entry_today d]) = (?ys @ [?t], True)"
    using ys by (rule replace_first_snoc) (simp add: date_entry_today)
  have r2: "replace_first d ?t (?ys @ [?t]) = (?ys @ [?t], True)"
    using ys dt by (rule replace_first_snoc)
  have "length (?ys @ [?t]) \<le> 7" by simp
  then have s: "save_today d ?t (?ys @ [?t]) = ?ys @ [?t]"
    by (simp add: save_today_def r2 last7_short)
  show ?thesis
    by (simp add: today_block_def g Let_def r1 s)
qed

text \<open>
  C7, as the code has it. Today's summary is computed from the entry that
  find-or-create returns, so it never fails and no \<^verbatim>\<open>NotFoundError\<close> exists.
  When an entry for the date is present, the summary (checked count, total 5,
  percentage, mood) is that of this entry with the check-in written to it,
  and in a ledger of at most seven entries this entry replaces it in place.
  When none is present, an entry with the five habits false and mood 6 is
  made and appended first, and the summary is that of the made entry with the
  check-in written to it, which is then the ledger's last entry.
\<close>

theorem today_block_summary:
  "(\<forall>e. find (\<lambda>e. date e = Some d) h = Some e \<longrightarrow>
        snd (today_block d w h) = today_summary (checkin w e) (slider w)
        \<and> (length h \<le> 7 \<longrightarrow>
             fst (today_block d w h) = fst (replace_first d (checkin w e) h)))
   \<and> ((\<forall>e\<in>set h. date e \<noteq> Some d) \<longrightarrow>
        snd (today_block d w h) = today_summary (checkin w (entry_today d)) (slider w)
        \<and> fst (today_block d w h) \<noteq> []
        \<and> last (fst (today_block d w h)) = checkin w (entry_today d))
   \<and> snd (today_block d w h)
       = Inr \<lparr>s_achievement = 20 * int (length (filter (checkbox w) HABITS)),
              s_checked_count = length (filter (checkbox w) HABITS),
              s_total = 5,
              s_mood = slider w\<rparr>"
proof -
  have 1: "\<forall>e. find (\<lambda>e. date e = Some d) h = Some e \<longrightarrow>
        snd (today_block d w h) = today_summary (checkin w e) (slider w)
        \<and> (length h \<le> 7 \<longrightarrow>
             fst (today_block d w h) = fst (replace_first d (checkin w e) h))"
    by (simp add: today_block_present)
  have 2: "(\<forall>e\<in>set h. date e \<noteq> Some d) \<longrightarrow>
        snd (today_block d w h) = today_summary (checkin w (entry_today d)) (slider w)
        \<and> fst (today_block d w h) \<noteq> []
        \<and> last (fst (today_block d w h)) = checkin w (entry_today d)"
    by (simp add: today_block_absent)
  have "\<exists>e. snd (today_block d w h) = today_summary (checkin w e) (slider w)"
    by (cases "get_today_entry d h") (auto simp add: today_block_def Let_def)
  then have 3: "snd (today_block d w h)
       = Inr \<lparr>s_achievement = 20 * int (length (filter (checkbox w) HABITS)),
              s_checked_count = length (filter (checkbox w) HABITS),
              s_total = 5,
              s_mood = slider w\<rparr>"
    by (auto simp: today_summary_checkin)
  from 1 2 3 show ?thesis by blast
qed

theorem today_block_summary_witness:
  "today_block ''2024-06-10'' three_ticked june_ledger
     = (butlast june_ledger @ [habit_entry ''2024-06-10'' 8 True True False False True],
        Inr \<lparr>s_achievement = 60, s_checked_count = 3, s_total = 5, s_mood = 8\<rparr>)
   \<and> snd (today_block ''2024-06-11'' three_ticked june_ledger)
     = Inr \<lparr>s_achievement = 60, s_checked_count = 3, s_total = 5, s_mood = 8\<rparr>
   \<and> last (fst (today_block ''2024-06-11'' three_ticked june_ledger))
     = habit_entry ''2024-06-11'' 8 True True False False True"
proof -
  have p: "find (\<lambda>e. date e = Some ''2024-06-10'') june_ledger
           = Some (habit_entry ''2024-06-10'' 6 False False False False False)"
    by (simp add: june_ledger_def date_habit_entry)
  have a: "\<forall>e\<in>set june_ledger. date e \<noteq> Some ''2024-06-11''"
    by (simp add: june_ledger_def date_habit_entry)
  have l: "length june_ledger \<le> 7" by (simp add: june_ledger_def)
  have c: "checkin three_ticked (habit_entry d m False False False False False)
           = habit_entry d 8 True True False False True" for d m
    by (simp add: checkin_habit_entry three_ticked_def)
  have t: "today_summary (habit_entry d 8 True True False False True) (slider three_ticked)
           = Inr \<lparr>s_achievement = 60, s_checked_count = 3, s_total = 5, s_mood = 8\<rparr>" for d
    by (simp add: today_summary_def achievement_20 checked_count_habit_entry total_5
        three_ticked_def)
  have r: "fst (replace_first ''2024-06-10''
                 (habit_entry ''2024-06-10'' 8 True True False False True) june_ledger)
           = butlast june_ledger @ [habit_entry ''2024-06-10'' 8 True True False False True]"
    by (simp add: june_ledger_def date_habit_entry)
  from today_block_summary [of "''2024-06-10''" june_ledger three_ticked] p l
  have 1: "today_block ''2024-06-10'' three_ticked june_ledger
     = (butlast june_ledger @ [habit_entry ''2024-06-10'' 8 True True False False True],
        Inr \<lparr>s_achievement = 60, s_checked_count = 3, s_total = 5, s_mood = 8\<rparr>)"
    by (simp add: c t r prod_eq_iff)
  from today_block_summary [of "''2024-06-11''" june_ledger three_ticked] a
  have 2: "snd (today_block ''2024-06-11'' three_ticked june_ledger)
     = Inr \<lparr>s_achievement = 60, s_checked_count = 3, s_total = 5, s_mood = 8\<rparr>
     \<and> last (fst (today_block ''2024-06-11'' three_ticked june_ledger))
     = habit_entry ''2024-06-11'' 8 True True False False True"
    by (simp add: entry_today_literal c t)
  from 1 2 show ?thesis by simp
qed

text \<open>
  C7 as stated fails. The ledger holds one entry, of 2024-06-09, and none of
  2024-06-10. Computing the summary of 2024-06-10 does not fail: it returns
  the summary of an entry made for the purpose (nothing checked, mood 6), and
  that entry is now in the ledger.
\<close>

theorem absent_date_summary_counterexample:
  "''2024-06-10'' \<notin> set (entry_dates [habit_entry ''2024-06-09'' 7 False False True True True])
   \<and> today_block ''2024-06-10'' untouched
       [habit_entry ''2024-06-09'' 7 False False True True True]
     = ([habit_entry ''2024-06-09'' 7 False False True True True,
         habit_entry ''2024-06-10'' 6 False False False False False],
        Inr \<lparr>s_achievement = 0, s_checked_count = 0, s_total = 5, s_mood = 6\<rparr>)"
proof -
  have "today_block ''2024-06-10'' untouched
          [habit_entry ''2024-06-09'' 7 False False True True True]
     = ([habit_entry ''2024-06-09'' 7 False False True True True,
         checkin untouched (entry_today ''2024-06-10'')],
        today_summary (checkin untouched (entry_today ''2024-06-10'')) (slider untouched))"
    by (subst today_block_absent) (simp_all add: date_habit_entry)
  then show ?thesis
    by (simp add: entry_today_literal checkin_habit_entry today_summary_def achievement_20
        checked_count_habit_entry total_5 untouched_def date_habit_entry)
qed

subsection \<open>An upsert after the date has changed\<close>

lemma today_block_same_clock: "today_block_clocks d d w h = today_block d w h"
  by (simp add: today_block_clocks_def today_block_def)


subsection \<open>Eviction and a day of the seeded ledger\<close>

text \<open>
  The bound on the length in C5 is needed. In a list of eight entries whose
  first is today's, the first upsert overwrites the first entry and the trim
  drops it; the second upsert finds no entry of today and appends.
\<close>

lemma save_today_twice_long_ledger:
  "save_today ''2024-06-11'' (snd (full_day ''2024-06-11''))
     (snd (full_day ''2024-06-11'') # june_ledger) = june_ledger
   \<and> save_today ''2024-06-11'' (snd (full_day ''2024-06-11'')) june_ledger
     = tl june_ledger @ [snd (full_day ''2024-06-11'')]"
  by (simp add: save_today_def last7_def june_ledger_def full_day_def date_habit_entry)

text \<open>
  On a ledger of exactly seven entries, an upsert of a date it does not hold
  and find-or-create of such a date both drop the first entry and put the new
  one last.
\<close>

theorem full_ledger_evicts_oldest:
  assumes "length h = 7" "\<forall>e\<in>set h. date e \<noteq> Some d"
  shows "save_today d x h = tl h @ [x]
    \<and> get_today_entry d h
        = (tl h @ [habit_entry d 6 False False False False False],
           habit_entry d 6 False False False False False)"
proof -
  have "drop (Suc 0) h = tl h" by (simp add: drop_Suc)
  with assms show ?thesis
    by (simp add: save_today_absent get_today_entry_absent last7_snoc entry_today_literal)
qed

theorem full_ledger_evicts_oldest_witness:
  "map date (save_today ''2024-06-11'' (snd (full_day ''2024-06-11'')) june_ledger)
     = [Some ''2024-06-05'', Some ''2024-06-06'', Some ''2024-06-07'', Some ''2024-06-08'',
        Some ''2024-06-09'', Some ''2024-06-10'', Some ''2024-06-11'']"
proof -
  have l: "length june_ledger = 7" by (simp add: june_ledger_def)
  have a: "\<forall>e\<in>set june_ledger. date e \<noteq> Some ''2024-06-11''"
    by (simp add: june_ledger_def date_habit_entry)
  from full_ledger_evicts_oldest [OF l a, of "snd (full_day ''2024-06-11'')"]
  show ?thesis by (simp add: june_ledger_def date_habit_entry date_full_day)
qed

text \<open>
  Seeding on 2024-06-10, then a render with wake, water and sleep ticked and
  the slider at 8: the summary is 3 of 5, 60 percent, mood 8; the series has
  seven points and its last is 60 percent on 06/10.
\<close>

theorem seeded_day_end_to_end:
  "init_demo_history 739047 = Inr june_ledger
   \<and> today_block ''2024-06-10'' three_ticked june_ledger
     = (butlast june_ledger @ [habit_entry ''2024-06-10'' 8 True True False False True],
        Inr \<lparr>s_achievement = 60, s_checked_count = 3, s_total = 5, s_mood = 8\<rparr>)
   \<and> series strftime_md_iso
        (butlast june_ledger @ [habit_entry ''2024-06-10'' 8 True True False False True])
     = Inr [(Some ''06/04'', 60), (Some ''06/05'', 60), (Some ''06/06'', 60),
            (Some ''06/07'', 60), (Some ''06/08'', 80), (Some ''06/09'', 60),
            (Some ''06/10'', 60)]"
proof -
  have 1: "init_demo_history 739047 = Inr june_ledger"
    by (simp add: init_demo_history_def date_sub_days_def MAXORDINAL_def demo_entries
        entry_today_literal june_dates june_ledger_def)
  have p: "find (\<lambda>e. date e = Some ''2024-06-10'') june_ledger
           = Some (habit_entry ''2024-06-10'' 6 False False False False False)"
    by (simp add: june_ledger_def date_habit_entry)
  have l: "length june_ledger \<le> 7" by (simp add: june_ledger_def)
  have c: "checkin three_ticked (habit_entry ''2024-06-10'' 6 False False False False False)
           = habit_entry ''2024-06-10'' 8 True True False False True"
    by (simp add: checkin_habit_entry three_ticked_def)
  have t: "today_summary (habit_entry ''2024-06-10'' 8 True True False False True)
             (slider three_ticked)
           = Inr \<lparr>s_achievement = 60, s_checked_count = 3, s_total = 5, s_mood = 8\<rparr>"
    by (simp add: today_summary_def achievement_20 checked_count_habit_entry total_5
        three_ticked_def)
  have f: "fst (replace_first ''2024-06-10''
                 (habit_entry ''2024-06-10'' 8 True True False False True) june_ledger)
           = butlast june_ledger @ [habit_entry ''2024-06-10'' 8 True True False False True]"
    by (simp add: june_ledger_def date_habit_entry)
  have 2: "today_block ''2024-06-10'' three_ticked june_ledger
     = (butlast june_ledger @ [habit_entry ''2024-06-10'' 8 True True False False True],
        Inr \<lparr>s_achievement = 60, s_checked_count = 3, s_total = 5, s_mood = 8\<rparr>)"
    using today_block_present [OF p, of three_ticked] l
    by (simp add: c t f prod_eq_iff)
  have 3: "series strftime_md_iso
        (butlast june_ledger @ [habit_entry ''2024-06-10'' 8 True True False False True])
     = Inr [(Some ''06/04'', 60), (Some ''06/05'', 60), (Some ''06/06'', 60),
            (Some ''06/07'', 60), (Some ''06/08'', 80), (Some ''06/09'', 60),
            (Some ''06/10'', 60)]"
    by (simp add: series_eq strftime_md_iso_def iso_month_day_def june_ledger_def
        checked_count_habit_entry date_habit_entry)
  from 1 2 3 show ?thesis by simp
qed

end
